theory Spec2Isabelle
  imports Complex_Main
begin

section \<open>Python and torch values\<close>

text \<open>
  The module \<^verbatim>\<open>neuralprophet/metrics.py\<close> keeps running weighted means of scalars
  that it obtains from torch tensors. Exceptions are values of the type \<open>error\<close>:
  \<^item> \<open>ValueError args\<close> is Python's \<^verbatim>\<open>ValueError(*args)\<close>, the only exception the
    module raises itself (in \<^verbatim>\<open>no_sample_error\<close> and in \<^verbatim>\<open>Loss.update\<close>);
  \<^item> \<open>IndexError\<close> is raised by \<^verbatim>\<open>target.shape[0]\<close> on a tensor without dimensions;
  \<^item> \<open>ZeroDivisionError\<close> is raised by \<^verbatim>\<open>/\<close> on a zero divisor;
  \<^item> \<open>TorchError\<close> stands for an exception raised inside a torch primitive
    (shapes that cannot be broadcast, \<^verbatim>\<open>item()\<close> on a tensor that does not hold
    exactly one element);
  \<^item> \<open>CalleeError\<close> stands for an exception raised inside the injected loss function.
\<close>

datatype error =
    ValueError "string list"
  | IndexError
  | ZeroDivisionError
  | TorchError string
  | CalleeError string

text \<open>
  A Python float is either a number or not-a-number. Numbers are exact reals: rounding
  and overflow are not modelled. Not-a-number is kept because the module can produce it
  from finite inputs (the mean of a tensor without elements).
\<close>

datatype pyfloat = Fin real | NaN

fun fadd :: "pyfloat \<Rightarrow> pyfloat \<Rightarrow> pyfloat" where
  "fadd (Fin a) (Fin b) = Fin (a + b)"
| "fadd _ _ = NaN"

fun fsub :: "pyfloat \<Rightarrow> pyfloat \<Rightarrow> pyfloat" where
  "fsub (Fin a) (Fin b) = Fin (a - b)"
| "fsub _ _ = NaN"

fun fabs :: "pyfloat \<Rightarrow> pyfloat" where
  "fabs (Fin a) = Fin \<bar>a\<bar>"
| "fabs NaN = NaN"

fun fpow :: "pyfloat \<Rightarrow> nat \<Rightarrow> pyfloat" where
  "fpow (Fin a) k = Fin (a ^ k)"
| "fpow NaN k = NaN"

text \<open>\<^verbatim>\<open>x * n\<close> for a float \<open>x\<close> and a Python int \<open>n\<close>; \<^verbatim>\<open>nan * 0\<close> is \<^verbatim>\<open>nan\<close>.\<close>

fun fmul_int :: "pyfloat \<Rightarrow> int \<Rightarrow> pyfloat" where
  "fmul_int (Fin a) n = Fin (a * of_int n)"
| "fmul_int NaN n = NaN"

text \<open>\<^verbatim>\<open>x / n\<close> (true division) for a float \<open>x\<close> and a Python int \<open>n\<close>.\<close>

fun fdiv_int :: "pyfloat \<Rightarrow> int \<Rightarrow> pyfloat" where
  "fdiv_int (Fin a) n = Fin (a / of_int n)"
| "fdiv_int NaN n = NaN"

definition truediv :: "pyfloat \<Rightarrow> int \<Rightarrow> error + pyfloat" where
  "truediv x n = (if n = 0 then Inl ZeroDivisionError else Inr (fdiv_int x n))"

text \<open>
  A tensor is its shape and its elements in row-major order. The functions below take
  any such record; a tensor built by torch has \<open>length (data t) = prod_list (shape t)\<close>.
\<close>

record tensor =
  shape :: "nat list"
  data :: "pyfloat list"

text \<open>\<^verbatim>\<open>t.shape[0]\<close>\<close>

definition shape0 :: "tensor \<Rightarrow> error + int" where
  "shape0 t = (case shape t of [] \<Rightarrow> Inl IndexError | n # _ \<Rightarrow> Inr (int n))"

text \<open>\<^verbatim>\<open>t.item()\<close>, also reached through \<^verbatim>\<open>t.data.item()\<close>\<close>

definition item :: "tensor \<Rightarrow> error + pyfloat" where
  "item t =
     (case data t of
        [x] \<Rightarrow> Inr x
      | _ \<Rightarrow> Inl (TorchError ''only one element tensors can be converted to Python scalars''))"

text \<open>
  Broadcasting, on shapes read from the trailing dimension: two sizes are compatible when
  they are equal or one of them is 1.
\<close>

fun broadcast_dims :: "nat list \<Rightarrow> nat list \<Rightarrow> error + nat list" where
  "broadcast_dims [] ys = Inr ys"
| "broadcast_dims (x # xs) [] = Inr (x # xs)"
| "broadcast_dims (x # xs) (y # ys) =
     (case broadcast_dims xs ys of
        Inl e \<Rightarrow> Inl e
      | Inr zs \<Rightarrow>
          if x = y \<or> y = 1 then Inr (x # zs)
          else if x = 1 then Inr (y # zs)
          else Inl (TorchError ''The size of tensor a must match the size of tensor b''))"

text \<open>
  \<open>expand src dst xs\<close> repeats the rows of \<open>xs\<close> (of shape \<open>src\<close>) along every
  dimension of size 1 that \<open>dst\<close> makes larger; \<open>src\<close> and \<open>dst\<close> have the same rank.
\<close>

fun expand :: "nat list \<Rightarrow> nat list \<Rightarrow> 'a list \<Rightarrow> 'a list" where
  "expand (s # ss) (d # ds) xs =
     (let k = prod_list ss;
          block = concat (map (\<lambda>i. expand ss ds (take k (drop (i * k) xs))) [0..<s])
      in if s = d then block else concat (replicate d block))"
| "expand _ _ xs = xs"

definition broadcast_to :: "nat list \<Rightarrow> tensor \<Rightarrow> pyfloat list" where
  "broadcast_to dst t =
     expand (replicate (length dst - length (shape t)) 1 @ shape t) dst (data t)"

text \<open>\<^verbatim>\<open>a - b\<close>\<close>

definition torch_sub :: "tensor \<Rightarrow> tensor \<Rightarrow> error + tensor" where
  "torch_sub a b =
     (case broadcast_dims (rev (shape a)) (rev (shape b)) of
        Inl e \<Rightarrow> Inl e
      | Inr rs \<Rightarrow>
          Inr \<lparr>shape = rev rs,
               data = map2 fsub (broadcast_to (rev rs) a) (broadcast_to (rev rs) b)\<rparr>)"

text \<open>\<^verbatim>\<open>torch.abs(t)\<close>\<close>

definition torch_abs :: "tensor \<Rightarrow> tensor" where
  "torch_abs t = t\<lparr>data := map fabs (data t)\<rparr>"

text \<open>\<^verbatim>\<open>torch.pow(t, k)\<close>\<close>

definition torch_pow :: "tensor \<Rightarrow> nat \<Rightarrow> tensor" where
  "torch_pow t k = t\<lparr>data := map (\<lambda>x. fpow x k) (data t)\<rparr>"

text \<open>
  \<^verbatim>\<open>torch.mean(t)\<close>: a tensor without dimensions holding the mean of all elements,
  which is not-a-number when there are none.
\<close>

definition mean_of :: "pyfloat list \<Rightarrow> pyfloat" where
  "mean_of xs =
     (if xs = [] then NaN else fdiv_int (foldl fadd (Fin 0) xs) (int (length xs)))"

definition torch_mean :: "tensor \<Rightarrow> tensor" where
  "torch_mean t = \<lparr>shape = [], data = [mean_of (data t)]\<rparr>"

section \<open>The classes of metrics.py\<close>

datatype py_class = Metric_class | MAE_class | MSE_class | Loss_class | Value_class

text \<open>\<^verbatim>\<open>cls.__name__\<close>\<close>

fun class_name :: "py_class \<Rightarrow> string" where
  "class_name Metric_class = ''Metric''"
| "class_name MAE_class = ''MAE''"
| "class_name MSE_class = ''MSE''"
| "class_name Loss_class = ''Loss''"
| "class_name Value_class = ''Value''"

text \<open>
  The attributes of a \<^verbatim>\<open>Metric\<close> object; \<open>priv_sum\<close> and \<open>priv_num_examples\<close> are
  \<^verbatim>\<open>_sum\<close> and \<^verbatim>\<open>_num_examples\<close>. The number of examples is a Python int.
\<close>

record metric =
  name :: string
  priv_sum :: pyfloat
  priv_num_examples :: int
  stored_values :: "pyfloat list"
  total_updates :: int

text \<open>
  The loss function handed to \<^verbatim>\<open>Loss\<close>: the name of its class and what a call of it
  does, which is to return a tensor or to raise (\<open>Inl\<close>, with a description of the
  exception). \<^verbatim>\<open>Loss.update\<close> lets such an exception pass as \<open>CalleeError\<close>, apart
  from the exceptions the module raises itself. \<open>'kw\<close> is the type of the keyword
  arguments that \<^verbatim>\<open>Loss.update\<close> forwards.
\<close>

record 'kw loss_fn =
  fn_class_name :: string
  fn_call :: "tensor \<Rightarrow> tensor \<Rightarrow> 'kw \<Rightarrow> string + tensor"

record 'kw loss = metric +
  priv_loss_fn :: "'kw loss_fn"

subsection \<open>Metric\<close>

text \<open>
  \<^verbatim>\<open>Metric.__init__(self, name=None)\<close>; the first argument is the class of \<^verbatim>\<open>self\<close>,
  which the constructors of the subclasses pass on.
\<close>

definition Metric_init :: "py_class \<Rightarrow> string option \<Rightarrow> metric" where
  "Metric_init self_class nm =
     \<lparr>name = (case nm of None \<Rightarrow> class_name self_class | Some n \<Rightarrow> n),
      priv_sum = Fin 0,
      priv_num_examples = 0,
      stored_values = [],
      total_updates = 0\<rparr>"

definition reset :: "'a metric_scheme \<Rightarrow> 'a metric_scheme" where
  "reset m = m\<lparr>priv_sum := Fin 0, priv_num_examples := 0\<rparr>"

text \<open>
  \<^verbatim>\<open>Metric.update\<close>, the body under \<^verbatim>\<open>@abstractmethod\<close>. \<^verbatim>\<open>Metric\<close> does not use
  \<^verbatim>\<open>ABCMeta\<close>, so the decorator forbids nothing and the body can be called.
\<close>

definition Metric_update ::
  "tensor \<Rightarrow> tensor \<Rightarrow> 'a metric_scheme \<Rightarrow> (error + unit) \<times> 'a metric_scheme" where
  "Metric_update predicted target m =
     (Inr (), m\<lparr>total_updates := total_updates m + 1\<rparr>)"

text \<open>\<^verbatim>\<open>no_sample_error\<close> always raises; this is the exception it raises.\<close>

definition no_sample_error :: "'a metric_scheme \<Rightarrow> error" where
  "no_sample_error m =
     ValueError [name m, '' must have at least one example before it can be computed.'']"

definition compute :: "bool \<Rightarrow> 'a metric_scheme \<Rightarrow> (error + pyfloat) \<times> 'a metric_scheme" where
  "compute save m =
     (if priv_num_examples m = 0 then (Inl (no_sample_error m), m)
      else case truediv (priv_sum m) (priv_num_examples m) of
             Inl e \<Rightarrow> (Inl e, m)
           | Inr val \<Rightarrow>
               (Inr val,
                if save then m\<lparr>stored_values := stored_values m @ [val]\<rparr> else m))"

text \<open>
  \<^verbatim>\<open>Metric.__str__\<close>. The rendering of a float by the format \<^verbatim>\<open>{:8.3f}\<close> is the
  parameter \<open>format_8_3f\<close>.
\<close>

definition Metric_str ::
  "(pyfloat \<Rightarrow> string) \<Rightarrow> 'a metric_scheme \<Rightarrow> (error + string) \<times> 'a metric_scheme" where
  "Metric_str format_8_3f m =
     (case compute False m of
        (Inl e, m') \<Rightarrow> (Inl e, m')
      | (Inr val, m') \<Rightarrow> (Inr (name m @ '': '' @ format_8_3f val), m'))"

subsection \<open>MAE\<close>

definition MAE_init :: metric where
  "MAE_init = Metric_init MAE_class None"

definition MAE_update ::
  "tensor \<Rightarrow> tensor \<Rightarrow> 'a metric_scheme \<Rightarrow> (error + unit) \<times> 'a metric_scheme" where
  "MAE_update predicted target m =
     (let m1 = m\<lparr>total_updates := total_updates m + 1\<rparr> in
      case shape0 target of
        Inl e \<Rightarrow> (Inl e, m1)
      | Inr num \<Rightarrow>
     (case torch_sub predicted target of
        Inl e \<Rightarrow> (Inl e, m1)
      | Inr diff \<Rightarrow>
     (let absolute_errors = torch_abs diff in
      case item (torch_mean absolute_errors) of
        Inl e \<Rightarrow> (Inl e, m1)
      | Inr r \<Rightarrow>
     (let m2 = m1\<lparr>priv_sum := fadd (priv_sum m1) (fmul_int r num)\<rparr> in
      case shape0 target of
        Inl e \<Rightarrow> (Inl e, m2)
      | Inr n \<Rightarrow> (Inr (), m2\<lparr>priv_num_examples := priv_num_examples m2 + n\<rparr>)))))"

subsection \<open>MSE\<close>

definition MSE_init :: metric where
  "MSE_init = Metric_init MSE_class None"

definition MSE_update ::
  "tensor \<Rightarrow> tensor \<Rightarrow> 'a metric_scheme \<Rightarrow> (error + unit) \<times> 'a metric_scheme" where
  "MSE_update predicted target m =
     (let m1 = m\<lparr>total_updates := total_updates m + 1\<rparr> in
      case shape0 target of
        Inl e \<Rightarrow> (Inl e, m1)
      | Inr num \<Rightarrow>
     (case torch_sub predicted target of
        Inl e \<Rightarrow> (Inl e, m1)
      | Inr diff \<Rightarrow>
     (let squared_errors = torch_pow diff 2 in
      case item (torch_mean squared_errors) of
        Inl e \<Rightarrow> (Inl e, m1)
      | Inr r \<Rightarrow>
     (let m2 = m1\<lparr>priv_sum := fadd (priv_sum m1) (fmul_int r num)\<rparr> in
      (Inr (), m2\<lparr>priv_num_examples := priv_num_examples m2 + num\<rparr>)))))"

subsection \<open>Loss\<close>

definition Loss_init :: "'kw loss_fn \<Rightarrow> 'kw loss" where
  "Loss_init loss_fn =
     metric.extend (Metric_init Loss_class (Some (fn_class_name loss_fn)))
       (loss.fields loss_fn)"

text \<open>The exception that \<^verbatim>\<open>Loss.update\<close> raises on a loss that is not a scalar.\<close>

definition shape_error :: error where
  "shape_error = ValueError [''loss_fn did not return the average loss.'']"

definition Loss_update ::
  "tensor \<Rightarrow> tensor \<Rightarrow> 'kw \<Rightarrow> ('kw, 'a) loss_scheme
     \<Rightarrow> (error + unit) \<times> ('kw, 'a) loss_scheme" where
  "Loss_update predicted target kwargs m =
     (let m1 = m\<lparr>total_updates := total_updates m + 1\<rparr> in
      case shape0 target of
        Inl e \<Rightarrow> (Inl e, m1)
      | Inr num \<Rightarrow>
     (case fn_call (priv_loss_fn m1) predicted target kwargs of
        Inl raised \<Rightarrow> (Inl (CalleeError raised), m1)
      | Inr average_loss \<Rightarrow>
          if length (shape average_loss) \<noteq> 0 then (Inl shape_error, m1)
          else
     (case item average_loss of
        Inl e \<Rightarrow> (Inl e, m1)
      | Inr r \<Rightarrow>
     (let m2 = m1\<lparr>priv_sum := fadd (priv_sum m1) (fmul_int r num)\<rparr> in
      (Inr (), m2\<lparr>priv_num_examples := priv_num_examples m2 + num\<rparr>)))))"

subsection \<open>Value\<close>

definition Value_init :: "string option \<Rightarrow> metric" where
  "Value_init nm = Metric_init Value_class nm"

definition Value_update ::
  "tensor \<Rightarrow> int \<Rightarrow> 'a metric_scheme \<Rightarrow> (error + unit) \<times> 'a metric_scheme" where
  "Value_update avg_value num m =
     (let m1 = m\<lparr>total_updates := total_updates m + 1\<rparr> in
      case item avg_value of
        Inl e \<Rightarrow> (Inl e, m1)
      | Inr r \<Rightarrow>
     (let m2 = m1\<lparr>priv_sum := fadd (priv_sum m1) (fmul_int r num)\<rparr> in
      (Inr (), m2\<lparr>priv_num_examples := priv_num_examples m2 + num\<rparr>)))"

section \<open>Calls in sequence\<close>

text \<open>
  The caller's loop: one call of \<open>upd\<close> for each batch, in order; an exception ends it.
\<close>

fun run_updates ::
  "('b \<Rightarrow> 's \<Rightarrow> (error + unit) \<times> 's) \<Rightarrow> 'b list \<Rightarrow> 's \<Rightarrow> (error + unit) \<times> 's" where
  "run_updates upd [] m = (Inr (), m)"
| "run_updates upd (b # bs) m =
     (case upd b m of
        (Inl e, m') \<Rightarrow> (Inl e, m')
      | (Inr u, m') \<Rightarrow> run_updates upd bs m')"

section \<open>Reductions, weights and the weighted mean\<close>

text \<open>
  What one call of \<^verbatim>\<open>update\<close> contributes, as the specification tabulates it for each
  variant: the reduction of the batch and its weight, or the exception of the call.
  \<^item> MAE: the mean of \<open>abs(predicted - target)\<close> over the whole batch, weight the size of
    the leading dimension of \<open>target\<close>;
  \<^item> MSE: the mean of \<open>(predicted - target)^2\<close>, same weight;
  \<^item> Loss: the scalar that the loss function returns, same weight;
  \<^item> Value: the value itself, weight \<open>num\<close>.
\<close>

definition MAE_contribution :: "tensor \<Rightarrow> tensor \<Rightarrow> error + pyfloat \<times> int" where
  "MAE_contribution predicted target =
     (case shape0 target of
        Inl e \<Rightarrow> Inl e
      | Inr n \<Rightarrow>
          (case torch_sub predicted target of
             Inl e \<Rightarrow> Inl e
           | Inr diff \<Rightarrow> Inr (mean_of (map fabs (data diff)), n)))"

definition MSE_contribution :: "tensor \<Rightarrow> tensor \<Rightarrow> error + pyfloat \<times> int" where
  "MSE_contribution predicted target =
     (case shape0 target of
        Inl e \<Rightarrow> Inl e
      | Inr n \<Rightarrow>
          (case torch_sub predicted target of
             Inl e \<Rightarrow> Inl e
           | Inr diff \<Rightarrow> Inr (mean_of (map (\<lambda>x. fpow x 2) (data diff)), n)))"

definition Loss_contribution ::
  "'kw loss_fn \<Rightarrow> tensor \<Rightarrow> tensor \<Rightarrow> 'kw \<Rightarrow> error + pyfloat \<times> int" where
  "Loss_contribution loss_fn predicted target kwargs =
     (case shape0 target of
        Inl e \<Rightarrow> Inl e
      | Inr n \<Rightarrow>
          (case fn_call loss_fn predicted target kwargs of
             Inl raised \<Rightarrow> Inl (CalleeError raised)
           | Inr average_loss \<Rightarrow>
               if shape average_loss \<noteq> [] then Inl shape_error
               else (case item average_loss of Inl e \<Rightarrow> Inl e | Inr r \<Rightarrow> Inr (r, n))))"

definition Value_contribution :: "tensor \<Rightarrow> int \<Rightarrow> error + pyfloat \<times> int" where
  "Value_contribution avg_value num =
     (case item avg_value of Inl e \<Rightarrow> Inl e | Inr r \<Rightarrow> Inr (r, num))"

text \<open>
  The two ways a call of \<^verbatim>\<open>update\<close> can leave the object: counted only, or counted
  with \<open>r * n\<close> added to the sum and \<open>n\<close> to the number of examples.
\<close>

definition counted :: "'a metric_scheme \<Rightarrow> 'a metric_scheme" where
  "counted m = m\<lparr>total_updates := total_updates m + 1\<rparr>"

definition accumulate :: "pyfloat \<Rightarrow> int \<Rightarrow> 'a metric_scheme \<Rightarrow> 'a metric_scheme" where
  "accumulate r n m =
     m\<lparr>total_updates := total_updates m + 1,
       priv_sum := fadd (priv_sum m) (fmul_int r n),
       priv_num_examples := priv_num_examples m + n\<rparr>"

definition outcome ::
  "error + pyfloat \<times> int \<Rightarrow> 'a metric_scheme \<Rightarrow> (error + unit) \<times> 'a metric_scheme" where
  "outcome c m =
     (case c of Inl e \<Rightarrow> (Inl e, counted m) | Inr (r, n) \<Rightarrow> (Inr (), accumulate r n m))"

text \<open>
  \<open>r\<^sub>1 * n\<^sub>1 + ... + r\<^sub>k * n\<^sub>k\<close>, added from the left as the object adds them,
  \<open>n\<^sub>1 + ... + n\<^sub>k\<close>, and their quotient, in the arithmetic of \<open>pyfloat\<close>.
\<close>

definition weighted_sum :: "(pyfloat \<times> int) list \<Rightarrow> pyfloat" where
  "weighted_sum rns = foldl fadd (Fin 0) (map (\<lambda>(r, n). fmul_int r n) rns)"

definition total_weight :: "(pyfloat \<times> int) list \<Rightarrow> int" where
  "total_weight rns = sum_list (map snd rns)"

definition weighted_mean :: "(pyfloat \<times> int) list \<Rightarrow> pyfloat" where
  "weighted_mean rns = fdiv_int (weighted_sum rns) (total_weight rns)"

text \<open>Python's \<^verbatim>\<open>x >= 0\<close> on a float: false on not-a-number.\<close>

fun nonneg :: "pyfloat \<Rightarrow> bool" where
  "nonneg (Fin a) \<longleftrightarrow> 0 \<le> a"
| "nonneg NaN \<longleftrightarrow> False"

text \<open>The same test, let through on not-a-number.\<close>

fun nonneg_or_nan :: "pyfloat \<Rightarrow> bool" where
  "nonneg_or_nan (Fin a) \<longleftrightarrow> 0 \<le> a"
| "nonneg_or_nan NaN \<longleftrightarrow> True"

section \<open>Example inputs\<close>

text \<open>\<^verbatim>\<open>torch.tensor(x)\<close> for a number and \<^verbatim>\<open>torch.tensor(xs)\<close> for a list of numbers.\<close>

definition scalar :: "real \<Rightarrow> tensor" where
  "scalar x = \<lparr>shape = [], data = [Fin x]\<rparr>"

definition vector :: "real list \<Rightarrow> tensor" where
  "vector xs = \<lparr>shape = [length xs], data = map Fin xs\<rparr>"

text \<open>
  Two loss functions without keyword arguments: \<open>mean_loss\<close>, of a class named
  \<^verbatim>\<open>MSELoss\<close>, returns the mean squared error as a scalar; \<open>unreduced_loss\<close> returns the
  tensor of squared errors, one for each element.
\<close>

definition mean_loss :: "unit loss_fn" where
  "mean_loss =
     \<lparr>fn_class_name = ''MSELoss'',
      fn_call = (\<lambda>predicted target kwargs.
        case torch_sub predicted target of
          Inl e \<Rightarrow> Inl ''RuntimeError''
        | Inr diff \<Rightarrow> Inr (torch_mean (torch_pow diff 2)))\<rparr>"

definition unreduced_loss :: "unit loss_fn" where
  "unreduced_loss =
     \<lparr>fn_class_name = ''MSELoss'',
      fn_call = (\<lambda>predicted target kwargs.
        case torch_sub predicted target of
          Inl e \<Rightarrow> Inl ''RuntimeError''
        | Inr diff \<Rightarrow> Inr (torch_pow diff 2))\<rparr>"

section \<open>Every update is one of the two outcomes\<close>

lemma MAE_update_outcome: "MAE_update p t m = outcome (MAE_contribution p t) m"
  by (simp add: MAE_update_def MAE_contribution_def outcome_def counted_def accumulate_def
      item_def torch_mean_def torch_abs_def Let_def split: sum.splits)

lemma MSE_update_outcome: "MSE_update p t m = outcome (MSE_contribution p t) m"
  by (simp add: MSE_update_def MSE_contribution_def outcome_def counted_def accumulate_def
      item_def torch_mean_def torch_pow_def Let_def split: sum.splits)

lemma Loss_update_outcome:
  "Loss_update p t kw m = outcome (Loss_contribution (priv_loss_fn m) p t kw) m"
  by (simp add: Loss_update_def Loss_contribution_def outcome_def counted_def accumulate_def
      Let_def split: sum.splits)

lemma Value_update_outcome: "Value_update a n m = outcome (Value_contribution a n) m"
  by (simp add: Value_update_def Value_contribution_def outcome_def counted_def accumulate_def
      Let_def split: sum.splits)

lemma total_updates_outcome: "total_updates (snd (outcome c m)) = total_updates m + 1"
  by (simp add: outcome_def counted_def accumulate_def split: sum.splits prod.splits)

lemma outcome_Inl: "outcome (Inl e) m = (Inl e, counted m)"
  by (simp add: outcome_def)

lemma outcome_Inr: "outcome (Inr (r, n)) m = (Inr (), accumulate r n m)"
  by (simp add: outcome_def)

section \<open>The counter of updates\<close>

text \<open>
  Claim C5. Every call of \<^verbatim>\<open>update\<close>, of the base class and of each of the four
  variants, leaves \<open>total_updates\<close> exactly one greater than it found it, whatever the
  call returns or raises. In \<^verbatim>\<open>Loss.update\<close> the counter is incremented before the
  loss is looked at, so a call that raises the exception for a loss that is not a scalar
  has counted itself too.
\<close>

theorem update_count_increment:
  "total_updates (snd (Metric_update p t m)) = total_updates m + 1 \<and>
   total_updates (snd (MAE_update p t m)) = total_updates m + 1 \<and>
   total_updates (snd (MSE_update p t m)) = total_updates m + 1 \<and>
   total_updates (snd (Loss_update p t kw l)) = total_updates l + 1 \<and>
   total_updates (snd (Value_update a n m)) = total_updates m + 1 \<and>
   (fst (Loss_update p t kw l) = Inl shape_error \<longrightarrow>
      total_updates (snd (Loss_update p t kw l)) = total_updates l + 1)"
  by (simp add: Metric_update_def MAE_update_outcome MSE_update_outcome Loss_update_outcome
      Value_update_outcome total_updates_outcome)

theorem update_count_increment_witness:
  "fst (Loss_update (vector [1, 2]) (vector [0, 0]) () (Loss_init unreduced_loss))
     = Inl shape_error \<and>
   total_updates (Loss_init unreduced_loss) = 0 \<and>
   total_updates
     (snd (Loss_update (vector [1, 2]) (vector [0, 0]) () (Loss_init unreduced_loss))) = 1"
  using update_count_increment
    [where p = "vector [1, 2]" and t = "vector [0, 0]" and kw = "()"
       and l = "Loss_init unreduced_loss"]
  by (simp add: Loss_update_def Loss_init_def Metric_init_def metric.defs loss.defs
      unreduced_loss_def vector_def shape0_def torch_sub_def broadcast_to_def torch_pow_def
      Let_def)

text \<open>
  Claim C10. The body of \<^verbatim>\<open>Metric.update\<close> itself only counts the call: it returns
  normally with \<open>total_updates\<close> one greater and with the sum, the number of examples,
  the stored values, the name and every attribute of a subclass as they were. The
  variants do not call it: after one call of a variant's \<^verbatim>\<open>update\<close> the counter stands
  where one call of the base body would have put it, so each variant counts once, itself.
\<close>

theorem Metric_update_counted_noop:
  "Metric_update p t m = (Inr (), m\<lparr>total_updates := total_updates m + 1\<rparr>) \<and>
   priv_sum (snd (Metric_update p t m)) = priv_sum m \<and>
   priv_num_examples (snd (Metric_update p t m)) = priv_num_examples m \<and>
   stored_values (snd (Metric_update p t m)) = stored_values m \<and>
   name (snd (Metric_update p t m)) = name m \<and>
   metric.more (snd (Metric_update p t m)) = metric.more m \<and>
   total_updates (snd (MAE_update p t m)) = total_updates (snd (Metric_update p t m)) \<and>
   total_updates (snd (MSE_update p t m)) = total_updates (snd (Metric_update p t m)) \<and>
   total_updates (snd (Loss_update p t kw l)) = total_updates (snd (Metric_update p t l)) \<and>
   total_updates (snd (Value_update a n m)) = total_updates (snd (Metric_update p t m))"
  by (simp add: Metric_update_def MAE_update_outcome MSE_update_outcome Loss_update_outcome
      Value_update_outcome total_updates_outcome)

section \<open>reset and compute\<close>

text \<open>
  Claim C4. \<^verbatim>\<open>reset\<close> sets the sum to 0 and the number of examples to 0 and changes
  nothing else: the stored values, the counter of updates, the name and the attributes of
  a subclass are as before. \<^verbatim>\<open>compute\<close> right after \<^verbatim>\<open>reset\<close> raises the exception of
  \<^verbatim>\<open>no_sample_error\<close>, with either value of \<open>save\<close>.
\<close>

theorem reset_frame:
  "priv_sum (reset m) = Fin 0 \<and>
   priv_num_examples (reset m) = 0 \<and>
   stored_values (reset m) = stored_values m \<and>
   total_updates (reset m) = total_updates m \<and>
   name (reset m) = name m \<and>
   metric.more (reset m) = metric.more m \<and>
   reset m = m\<lparr>priv_sum := Fin 0, priv_num_examples := 0\<rparr> \<and>
   compute save (reset m) = (Inl (no_sample_error m), reset m)"
  by (simp add: reset_def compute_def no_sample_error_def)

text \<open>
  Claim C2. \<^verbatim>\<open>compute\<close> raises the exception of \<^verbatim>\<open>no_sample_error\<close> when the number
  of examples is 0 and raises nothing otherwise; it then returns the sum divided by the
  number of examples. \<^verbatim>\<open>__str__\<close> raises exactly what \<^verbatim>\<open>compute()\<close> raises, so it
  raises that exception on a new object and on one just reset.
\<close>

theorem compute_no_sample_error:
  "fst (compute save m) =
     (if priv_num_examples m = 0 then Inl (no_sample_error m)
      else Inr (fdiv_int (priv_sum m) (priv_num_examples m))) \<and>
   ((\<exists>e. fst (compute save m) = Inl e) \<longleftrightarrow> priv_num_examples m = 0) \<and>
   fst (Metric_str format_8_3f m) =
     (if priv_num_examples m = 0 then Inl (no_sample_error m)
      else Inr (name m @ '': '' @
                format_8_3f (fdiv_int (priv_sum m) (priv_num_examples m)))) \<and>
   (fst (Metric_str format_8_3f m) = Inl e \<longleftrightarrow> fst (compute False m) = Inl e) \<and>
   fst (Metric_str format_8_3f (Metric_init c nm)) =
     Inl (no_sample_error (Metric_init c nm)) \<and>
   fst (Metric_str format_8_3f (reset m)) = Inl (no_sample_error m)"
  by (simp add: compute_def Metric_str_def truediv_def reset_def Metric_init_def
      no_sample_error_def)

text \<open>
  Claim C3. \<^verbatim>\<open>compute\<close> never changes the sum, the number of examples, the counter of
  updates (nor the name or an attribute of a subclass), with either value of \<open>save\<close> and
  whether it returns or raises; \<^verbatim>\<open>compute(save=False)\<close> changes nothing at all. When
  the number of examples is not 0 (in particular when it is positive),
  \<^verbatim>\<open>compute(save=True)\<close> appends exactly one entry to the stored values, and that entry
  is the value it returns.
\<close>

theorem compute_frame:
  "priv_sum (snd (compute save m)) = priv_sum m \<and>
   priv_num_examples (snd (compute save m)) = priv_num_examples m \<and>
   total_updates (snd (compute save m)) = total_updates m \<and>
   name (snd (compute save m)) = name m \<and>
   metric.more (snd (compute save m)) = metric.more m \<and>
   snd (compute False m) = m \<and>
   (priv_num_examples m \<noteq> 0 \<longrightarrow>
      fst (compute True m) = Inr (fdiv_int (priv_sum m) (priv_num_examples m)) \<and>
      stored_values (snd (compute True m)) =
        stored_values m @ [fdiv_int (priv_sum m) (priv_num_examples m)] \<and>
      length (stored_values (snd (compute True m))) = length (stored_values m) + 1 \<and>
      compute False m = (Inr (fdiv_int (priv_sum m) (priv_num_examples m)), m))"
  by (simp add: compute_def truediv_def)

theorem compute_frame_witness:
  "priv_num_examples (snd (Value_update (scalar 3) 2 (Value_init (Some ''lr'')))) \<noteq> 0 \<and>
   compute True (snd (Value_update (scalar 3) 2 (Value_init (Some ''lr'')))) =
     (Inr (Fin 3),
      \<lparr>name = ''lr'', priv_sum = Fin 6, priv_num_examples = 2, stored_values = [Fin 3],
       total_updates = 1\<rparr>)"
  using compute_frame
    [where m = "snd (Value_update (scalar 3) 2 (Value_init (Some ''lr'')))" and save = True]
  by (simp add: compute_def truediv_def Value_update_def Value_init_def Metric_init_def
      scalar_def item_def Let_def)

section \<open>A loss that is not a scalar\<close>

text \<open>
  Claim C6. \<^verbatim>\<open>Loss.update\<close> raises its \<^verbatim>\<open>ValueError\<close> for a loss that is not a scalar
  exactly when the loss function was called (the target has a leading dimension, which is
  read first) and what it returned has a shape that is not empty. A call that raises it
  leaves the object as it was but for the counter of updates, one greater: the sum and the
  number of examples are unchanged.
\<close>

theorem Loss_update_shape_error:
  "(fst (Loss_update p t kw l) = Inl shape_error \<longleftrightarrow>
      (\<exists>n average_loss. shape0 t = Inr n \<and>
         fn_call (priv_loss_fn l) p t kw = Inr average_loss \<and> shape average_loss \<noteq> [])) \<and>
   (fst (Loss_update p t kw l) = Inl shape_error \<longrightarrow>
      snd (Loss_update p t kw l) = l\<lparr>total_updates := total_updates l + 1\<rparr> \<and>
      priv_sum (snd (Loss_update p t kw l)) = priv_sum l \<and>
      priv_num_examples (snd (Loss_update p t kw l)) = priv_num_examples l)"
  by (auto simp add: Loss_update_def Let_def shape_error_def item_def shape0_def
      split: sum.splits list.splits)

theorem Loss_update_shape_error_witness:
  "fst (Loss_update (vector [1, 2]) (vector [0, 0]) () (Loss_init unreduced_loss))
     = Inl shape_error \<and>
   priv_sum (snd (Loss_update (vector [1, 2]) (vector [0, 0]) () (Loss_init unreduced_loss)))
     = Fin 0 \<and>
   priv_num_examples
     (snd (Loss_update (vector [1, 2]) (vector [0, 0]) () (Loss_init unreduced_loss))) = 0 \<and>
   fst (Loss_update (vector [1, 2]) (vector [0, 0]) () (Loss_init mean_loss)) = Inr ()"
  using Loss_update_shape_error
    [where p = "vector [1, 2]" and t = "vector [0, 0]" and kw = "()"
       and l = "Loss_init unreduced_loss"]
  by (simp add: Loss_update_def Loss_init_def Metric_init_def metric.defs loss.defs
      unreduced_loss_def mean_loss_def vector_def shape0_def torch_sub_def broadcast_to_def
      torch_pow_def torch_mean_def item_def Let_def)

section \<open>Names\<close>

text \<open>
  Claim C7, as the code has it. A metric built without a name is named after the class of
  the object: \<^verbatim>\<open>MAE()\<close> is named \<^verbatim>\<open>MAE\<close> and \<^verbatim>\<open>MSE()\<close> is named \<^verbatim>\<open>MSE\<close>. \<^verbatim>\<open>Loss\<close>
  always passes a name to the base constructor, the name of the class of its loss
  function, and \<^verbatim>\<open>Value\<close> passes the name it is given (the class name only for
  \<^verbatim>\<open>None\<close>).
\<close>

theorem default_names:
  "name MAE_init = ''MAE'' \<and>
   name MSE_init = ''MSE'' \<and>
   name (Loss_init loss_fn) = fn_class_name loss_fn \<and>
   name (Value_init (Some n)) = n \<and>
   name (Value_init None) = ''Value'' \<and>
   name (Metric_init c None) = class_name c \<and>
   name (Metric_init c (Some n)) = n"
  by (simp add: MAE_init_def MSE_init_def Loss_init_def Value_init_def Metric_init_def
      metric.defs)

text \<open>
  The claim as the specification words it fails for \<^verbatim>\<open>Loss\<close>: built on a loss function
  of class \<^verbatim>\<open>MSELoss\<close> the metric is named \<^verbatim>\<open>MSELoss\<close>, not \<^verbatim>\<open>Loss\<close>.
\<close>

theorem Loss_name_counterexample:
  "name (Loss_init mean_loss) = ''MSELoss'' \<and>
   name (Loss_init mean_loss) \<noteq> class_name Loss_class"
  by (simp add: Loss_init_def Metric_init_def metric.defs mean_loss_def)

section \<open>The number of examples is not negative\<close>

text \<open>
  Claim C9, as the code has it. The number of examples is 0 in a new object and after
  \<^verbatim>\<open>reset\<close>; \<^verbatim>\<open>compute\<close> and the \<^verbatim>\<open>update\<close> of the base class, of MAE, of MSE and of
  Loss keep it from becoming negative, whether they return or raise; the \<^verbatim>\<open>update\<close> of
  Value keeps it so when the \<open>num\<close> it is given is not negative.
\<close>

theorem sample_count_nonneg:
  "0 \<le> priv_num_examples (Metric_init c nm) \<and>
   0 \<le> priv_num_examples (Loss_init loss_fn) \<and>
   0 \<le> priv_num_examples (reset m) \<and>
   (0 \<le> priv_num_examples m \<longrightarrow>
      0 \<le> priv_num_examples (snd (compute save m)) \<and>
      0 \<le> priv_num_examples (snd (Metric_update p t m)) \<and>
      0 \<le> priv_num_examples (snd (MAE_update p t m)) \<and>
      0 \<le> priv_num_examples (snd (MSE_update p t m)) \<and>
      (0 \<le> n \<longrightarrow> 0 \<le> priv_num_examples (snd (Value_update a n m)))) \<and>
   (0 \<le> priv_num_examples l \<longrightarrow> 0 \<le> priv_num_examples (snd (Loss_update p t kw l)))"
  by (auto simp add: Metric_init_def Loss_init_def metric.defs reset_def compute_def
      Metric_update_def MAE_update_def MSE_update_def Loss_update_def Value_update_def
      Let_def shape0_def split: sum.splits list.splits)

theorem sample_count_nonneg_witness:
  "0 \<le> priv_num_examples MAE_init \<and> (0::int) \<le> 2 \<and>
   0 \<le> priv_num_examples (Loss_init mean_loss) \<and>
   priv_num_examples (snd (MAE_update (vector [1, 2, 3]) (vector [1, 1, 1]) MAE_init)) = 3 \<and>
   priv_num_examples (snd (Value_update (scalar 3) 2 MAE_init)) = 2 \<and>
   priv_num_examples
     (snd (Loss_update (vector [1, 2]) (vector [0, 0]) () (Loss_init mean_loss))) = 2"
  using sample_count_nonneg
    [where m = MAE_init and p = "vector [1, 2, 3]" and t = "vector [1, 1, 1]" and n = 2
       and a = "scalar 3" and l = "Loss_init mean_loss" and kw = "()"]
  by (simp add: MAE_init_def Metric_init_def Loss_init_def metric.defs loss.defs MAE_update_def
      Value_update_def Loss_update_def mean_loss_def vector_def scalar_def shape0_def
      torch_sub_def broadcast_to_def torch_abs_def torch_pow_def torch_mean_def item_def Let_def)

text \<open>
  The claim as the specification words it, for any \<open>num\<close>, fails: \<^verbatim>\<open>Value.update\<close> adds
  the \<open>num\<close> it is given without looking at it, so \<open>num = -1\<close> on a new object returns
  normally and leaves the number of examples at \<open>-1\<close>.
\<close>

theorem negative_sample_count_counterexample:
  "fst (Value_update (scalar 3) (- 1) (Value_init (Some ''lr''))) = Inr () \<and>
   priv_num_examples (snd (Value_update (scalar 3) (- 1) (Value_init (Some ''lr'')))) = - 1 \<and>
   \<not> 0 \<le> priv_num_examples (snd (Value_update (scalar 3) (- 1) (Value_init (Some ''lr''))))"
  by (simp add: Value_update_def Value_init_def Metric_init_def scalar_def item_def Let_def)

section \<open>Sums of contributions\<close>

text \<open>
  A run of updates that all return has added, to the sum and to the number of examples it
  started from, the contributions of its calls in order; it has counted each call and
  left the stored values and the name alone. The sums are those of \<open>pyfloat\<close>, without
  the rounding of the machine: what follows is used for the sign of a result and for
  whether it is a number, which rounding does not change, and says nothing about its
  digits.
\<close>

lemma run_updates_accumulated:
  assumes step: "\<And>b m. P m \<Longrightarrow> upd b m = outcome (contrib b) m"
    and keep: "\<And>r n m. P m \<Longrightarrow> P (accumulate r n m)"
  shows "P m \<Longrightarrow> run_updates upd bs m = (Inr (), m') \<Longrightarrow>
    \<exists>rns. map contrib bs = map Inr rns \<and>
      priv_sum m' = foldl fadd (priv_sum m) (map (\<lambda>(r, n). fmul_int r n) rns) \<and>
      priv_num_examples m' = priv_num_examples m + total_weight rns \<and>
      total_updates m' = total_updates m + int (length bs) \<and>
      stored_values m' = stored_values m \<and> name m' = name m"
proof (induction bs arbitrary: m)
  case Nil
  then show ?case by (simp add: total_weight_def)
next
  case (Cons b bs)
  show ?case
  proof (cases "contrib b")
    case (Inl e)
    with Cons.prems show ?thesis by (simp add: step outcome_def)
  next
    case (Inr rn)
    obtain r n where rn: "rn = (r, n)" by (cases rn)
    from Cons.prems Inr rn have run: "run_updates upd bs (accumulate r n m) = (Inr (), m')"
      by (simp add: step outcome_def)
    from Cons.IH [OF keep [OF Cons.prems(1)] run]
    obtain rns where rns: "map contrib bs = map Inr rns"
      "priv_sum m' = foldl fadd (priv_sum (accumulate r n m)) (map (\<lambda>(r, n). fmul_int r n) rns)"
      "priv_num_examples m' = priv_num_examples (accumulate r n m) + total_weight rns"
      "total_updates m' = total_updates (accumulate r n m) + int (length bs)"
      "stored_values m' = stored_values (accumulate r n m)" "name m' = name (accumulate r n m)"
      by blast
    have "map contrib (b # bs) = map Inr ((r, n) # rns)"
      using Inr rn rns(1) by simp
    moreover have "priv_sum m' =
        foldl fadd (priv_sum m) (map (\<lambda>(r, n). fmul_int r n) ((r, n) # rns))"
      using rns(2) by (simp add: accumulate_def)
    moreover have "priv_num_examples m' = priv_num_examples m + total_weight ((r, n) # rns)"
      using rns(3) by (simp add: accumulate_def total_weight_def)
    moreover have "total_updates m' = total_updates m + int (length (b # bs))"
      using rns(4) by (simp add: accumulate_def)
    moreover have "stored_values m' = stored_values m \<and> name m' = name m"
      using rns(5,6) by (simp add: accumulate_def)
    ultimately show ?thesis by blast
  qed
qed

lemma map_Inr_inject: "map Inr xs = map Inr ys \<Longrightarrow> xs = ys"
  by (simp add: inj_map_eq_map)

lemma run_updates_weighted:
  assumes step: "\<And>b m. P m \<Longrightarrow> upd b m = outcome (contrib b) m"
    and keep: "\<And>r n m. P m \<Longrightarrow> P (accumulate r n m)"
    and P: "P (reset m)"
    and run: "run_updates upd bs (reset m) = (Inr (), m')"
    and rns: "map contrib bs = map Inr rns"
  shows "priv_sum m' = weighted_sum rns \<and> priv_num_examples m' = total_weight rns \<and>
    fst (compute save m') =
      (if total_weight rns = 0 then Inl (no_sample_error m) else Inr (weighted_mean rns))"
proof -
  from run_updates_accumulated [of P upd contrib, OF step keep P run]
  obtain rns' where r: "map contrib bs = map Inr rns'"
      "priv_sum m' = foldl fadd (priv_sum (reset m)) (map (\<lambda>(r, n). fmul_int r n) rns')"
      "priv_num_examples m' = priv_num_examples (reset m) + total_weight rns'"
      "name m' = name (reset m)"
    by blast
  from r(1) rns have "rns' = rns" by (simp add: map_Inr_inject)
  with r show ?thesis
    by (simp add: reset_def weighted_sum_def weighted_mean_def compute_def truediv_def
        no_sample_error_def)
qed

section \<open>Signs and not-a-number\<close>

lemma nn_fabs: "nonneg_or_nan (fabs x)"
  by (cases x) simp_all

lemma nn_fpow2: "nonneg_or_nan (fpow x 2)"
  by (cases x) simp_all

lemma nn_fadd: "nonneg_or_nan a \<Longrightarrow> nonneg_or_nan b \<Longrightarrow> nonneg_or_nan (fadd a b)"
  by (cases a; cases b) simp_all

lemma nn_fmul_int: "nonneg_or_nan a \<Longrightarrow> 0 \<le> n \<Longrightarrow> nonneg_or_nan (fmul_int a n)"
  by (cases a) simp_all

lemma nn_fdiv_int: "nonneg_or_nan a \<Longrightarrow> 0 \<le> n \<Longrightarrow> nonneg_or_nan (fdiv_int a n)"
  by (cases a) simp_all

lemma nn_foldl:
  "nonneg_or_nan a \<Longrightarrow> \<forall>x\<in>set xs. nonneg_or_nan x \<Longrightarrow> nonneg_or_nan (foldl fadd a xs)"
  by (induction xs arbitrary: a) (simp_all add: nn_fadd)

lemma nn_mean_of: "\<forall>x\<in>set xs. nonneg_or_nan x \<Longrightarrow> nonneg_or_nan (mean_of xs)"
  by (simp add: mean_of_def nn_foldl nn_fdiv_int)

lemma nonneg_iff: "nonneg x \<longleftrightarrow> nonneg_or_nan x \<and> x \<noteq> NaN"
  by (cases x) simp_all

lemma fadd_NaN_iff: "fadd a b = NaN \<longleftrightarrow> a = NaN \<or> b = NaN"
  by (cases a; cases b) simp_all

lemma fmul_int_NaN_iff: "fmul_int r n = NaN \<longleftrightarrow> r = NaN"
  by (cases r) simp_all

lemma NaN_fmul_int_iff: "NaN = fmul_int r n \<longleftrightarrow> r = NaN"
  by (cases r) simp_all

lemma fdiv_int_NaN_iff: "fdiv_int r n = NaN \<longleftrightarrow> r = NaN"
  by (cases r) simp_all

lemma foldl_fadd_NaN_iff: "foldl fadd a xs = NaN \<longleftrightarrow> a = NaN \<or> NaN \<in> set xs"
  by (induction xs arbitrary: a) (auto simp add: fadd_NaN_iff)

lemma nn_weighted_sum:
  "\<forall>(r, n)\<in>set rns. nonneg_or_nan r \<and> 0 \<le> n \<Longrightarrow> nonneg_or_nan (weighted_sum rns)"
  unfolding weighted_sum_def
  by (rule nn_foldl) (auto simp add: nn_fmul_int)

lemma weighted_sum_NaN_iff: "weighted_sum rns = NaN \<longleftrightarrow> (\<exists>n. (NaN, n) \<in> set rns)"
proof -
  have "NaN \<in> set (map (\<lambda>(r, n). fmul_int r n) rns) \<longleftrightarrow> (\<exists>n. (NaN, n) \<in> set rns)"
    by (induction rns) (auto simp add: fmul_int_NaN_iff NaN_fmul_int_iff)
  then show ?thesis
    unfolding weighted_sum_def foldl_fadd_NaN_iff by simp
qed

lemma total_weight_nonneg: "\<forall>(r, n)\<in>set rns. 0 \<le> n \<Longrightarrow> 0 \<le> total_weight rns"
  unfolding total_weight_def by (induction rns) auto

lemma MAE_contribution_nn:
  "MAE_contribution p t = Inr (r, n) \<Longrightarrow> nonneg_or_nan r \<and> 0 \<le> n"
  by (auto simp add: MAE_contribution_def shape0_def nn_mean_of nn_fabs
      split: sum.splits list.splits)

lemma MSE_contribution_nn:
  "MSE_contribution p t = Inr (r, n) \<Longrightarrow> nonneg_or_nan r \<and> 0 \<le> n"
  by (auto simp add: MSE_contribution_def shape0_def nn_mean_of nn_fpow2
      split: sum.splits list.splits)

lemma nonneg_mean:
  assumes step: "\<And>b m. upd b m = outcome (contrib b) m"
    and nn: "\<And>b r n. contrib b = Inr (r, n) \<Longrightarrow> nonneg_or_nan r \<and> 0 \<le> n"
    and run: "run_updates upd bs (reset m) = (Inr (), m')"
    and v: "fst (compute save m') = Inr v"
  shows "nonneg_or_nan v \<and> ((\<forall>b\<in>set bs. \<forall>n. contrib b \<noteq> Inr (NaN, n)) \<longrightarrow> nonneg v)"
proof -
  from run_updates_accumulated [of "\<lambda>m. True" upd contrib, OF step TrueI TrueI run]
  obtain rns where rns: "map contrib bs = map Inr rns"
    by blast
  have mem: "\<And>rn. rn \<in> set rns \<Longrightarrow> \<exists>b\<in>set bs. contrib b = Inr rn"
  proof -
    fix rn assume "rn \<in> set rns"
    then have "Inr rn \<in> set (map contrib bs)" unfolding rns by simp
    then show "\<exists>b\<in>set bs. contrib b = Inr rn" by auto
  qed
  have all: "\<forall>(r, n)\<in>set rns. nonneg_or_nan r \<and> 0 \<le> n"
    using mem nn by fastforce
  from run_updates_weighted [of "\<lambda>m. True" upd contrib, OF step TrueI TrueI run rns, of save] v
  have v': "total_weight rns \<noteq> 0" "v = weighted_mean rns"
    by (auto split: if_splits)
  have w: "0 \<le> total_weight rns"
    using all by (intro total_weight_nonneg) auto
  have 1: "nonneg_or_nan v"
    unfolding v' weighted_mean_def using nn_weighted_sum [OF all] w by (rule nn_fdiv_int)
  have 2: "v \<noteq> NaN" if "\<forall>b\<in>set bs. \<forall>n. contrib b \<noteq> Inr (NaN, n)"
  proof -
    have "\<not> (\<exists>n. (NaN, n) \<in> set rns)"
      using mem that by blast
    then show ?thesis
      unfolding v' weighted_mean_def by (simp add: fdiv_int_NaN_iff weighted_sum_NaN_iff)
  qed
  show ?thesis using 1 2 by (simp add: nonneg_iff)
qed


lemma fabs_NaN_iff: "fabs x = NaN \<longleftrightarrow> x = NaN"
  by (cases x) simp_all

lemma fpow_NaN_iff: "fpow x k = NaN \<longleftrightarrow> x = NaN"
  by (cases x) simp_all

lemma fsub_NaN_iff: "fsub a b = NaN \<longleftrightarrow> a = NaN \<or> b = NaN"
  by (cases a; cases b) simp_all

lemma NaN_in_map_fabs: "NaN \<in> set (map fabs xs) \<longleftrightarrow> NaN \<in> set xs"
  by (induction xs) (auto simp add: fabs_NaN_iff dest: sym)

lemma NaN_in_map_fpow: "NaN \<in> set (map (\<lambda>x. fpow x k) xs) \<longleftrightarrow> NaN \<in> set xs"
  by (induction xs) (auto simp add: fpow_NaN_iff dest: sym)

lemma mean_of_NaN_iff: "mean_of xs = NaN \<longleftrightarrow> xs = [] \<or> NaN \<in> set xs"
  by (simp add: mean_of_def fdiv_int_NaN_iff foldl_fadd_NaN_iff)

lemma set_expand: "set (expand s d xs) \<subseteq> set xs"
proof (induction s d xs rule: expand.induct)
  case (1 s ss d ds xs)
  let ?row = "\<lambda>i. expand ss ds (take (prod_list ss) (drop (i * prod_list ss) xs))"
  have row: "set (?row i) \<subseteq> set xs" if "i \<in> set [0..<s]" for i
  proof -
    have "set (?row i) \<subseteq> set (take (prod_list ss) (drop (i * prod_list ss) xs))"
      using "1.IH" [OF refl that] .
    also have "\<dots> \<subseteq> set (drop (i * prod_list ss) xs)"
      by (rule set_take_subset)
    also have "\<dots> \<subseteq> set xs"
      by (rule set_drop_subset)
    finally show ?thesis .
  qed
  have block: "set (concat (map ?row [0..<s])) \<subseteq> set xs"
  proof
    fix x assume "x \<in> set (concat (map ?row [0..<s]))"
    then obtain i where "i \<in> set [0..<s]" "x \<in> set (?row i)"
      by auto
    with row show "x \<in> set xs"
      by blast
  qed
  have rep: "set (concat (replicate d (concat (map ?row [0..<s])))) \<subseteq> set xs"
    using block by (cases "d = 0") auto
  show ?case
  proof (cases "s = d")
    case True
    have "expand (s # ss) (d # ds) xs = concat (map ?row [0..<s])"
      using True by (simp add: Let_def)
    with block show ?thesis by simp
  next
    case False
    have "expand (s # ss) (d # ds) xs = concat (replicate d (concat (map ?row [0..<s])))"
      using False by (simp add: Let_def)
    with rep show ?thesis by simp
  qed
qed simp_all

lemma torch_sub_no_NaN:
  assumes "torch_sub p t = Inr d" "NaN \<notin> set (data p)" "NaN \<notin> set (data t)"
  shows "NaN \<notin> set (data d)"
proof
  assume "NaN \<in> set (data d)"
  with assms(1) obtain rs where
    "NaN \<in> set (map2 fsub (broadcast_to rs p) (broadcast_to rs t))"
    by (auto simp add: torch_sub_def split: sum.splits)
  then obtain x y where xy: "(x, y) \<in> set (zip (broadcast_to rs p) (broadcast_to rs t))"
    "fsub x y = NaN"
    by auto
  from xy(1) have "x \<in> set (broadcast_to rs p)"
    by (rule set_zip_leftD)
  then have x: "x \<in> set (data p)"
    unfolding broadcast_to_def by (rule set_expand [THEN subsetD])
  from xy(1) have "y \<in> set (broadcast_to rs t)"
    by (rule set_zip_rightD)
  then have y: "y \<in> set (data t)"
    unfolding broadcast_to_def by (rule set_expand [THEN subsetD])
  from xy(2) x y assms(2,3) show False
    by (auto simp add: fsub_NaN_iff)
qed

lemma MAE_contribution_number:
  assumes "NaN \<notin> set (data p)" "NaN \<notin> set (data t)"
    and "\<And>d. torch_sub p t = Inr d \<Longrightarrow> data d \<noteq> []"
  shows "MAE_contribution p t \<noteq> Inr (NaN, n)"
  using assms torch_sub_no_NaN [of p t]
  by (auto simp add: MAE_contribution_def mean_of_NaN_iff NaN_in_map_fabs
      simp del: set_map split: sum.splits)

lemma MSE_contribution_number:
  assumes "NaN \<notin> set (data p)" "NaN \<notin> set (data t)"
    and "\<And>d. torch_sub p t = Inr d \<Longrightarrow> data d \<noteq> []"
  shows "MSE_contribution p t \<noteq> Inr (NaN, n)"
  using assms torch_sub_no_NaN [of p t]
  by (auto simp add: MSE_contribution_def mean_of_NaN_iff NaN_in_map_fpow
      simp del: set_map split: sum.splits)


section \<open>Mean errors are not negative\<close>

lemma MAE_nonneg:
  assumes run: "run_updates (\<lambda>(p, t). MAE_update p t) bs (reset m) = (Inr (), m')"
    and v: "fst (compute save m') = Inr v"
  shows "nonneg_or_nan v \<and>
    ((\<forall>(p, t)\<in>set bs. NaN \<notin> set (data p) \<and> NaN \<notin> set (data t) \<and>
        (\<forall>d. torch_sub p t = Inr d \<longrightarrow> data d \<noteq> [])) \<longrightarrow> nonneg v)"
proof -
  have "nonneg_or_nan v \<and>
      ((\<forall>b\<in>set bs. \<forall>n. (case b of (p, t) \<Rightarrow> MAE_contribution p t) \<noteq> Inr (NaN, n)) \<longrightarrow>
        nonneg v)"
  proof (rule nonneg_mean [OF _ _ run v])
    show "\<And>b m. (case b of (p, t) \<Rightarrow> MAE_update p t) m =
        outcome (case b of (p, t) \<Rightarrow> MAE_contribution p t) m"
      by (simp add: MAE_update_outcome split: prod.splits)
    show "\<And>b r n. (case b of (p, t) \<Rightarrow> MAE_contribution p t) = Inr (r, n) \<Longrightarrow>
        nonneg_or_nan r \<and> 0 \<le> n"
      by (auto dest: MAE_contribution_nn split: prod.splits)
  qed
  moreover have "\<forall>b\<in>set bs. \<forall>n. (case b of (p, t) \<Rightarrow> MAE_contribution p t) \<noteq> Inr (NaN, n)"
    if "\<forall>(p, t)\<in>set bs. NaN \<notin> set (data p) \<and> NaN \<notin> set (data t) \<and>
        (\<forall>d. torch_sub p t = Inr d \<longrightarrow> data d \<noteq> [])"
  proof (intro ballI allI)
    fix b n
    assume b: "b \<in> set bs"
    obtain p t where pt: "b = (p, t)"
      by (cases b)
    from that b pt have "NaN \<notin> set (data p)" "NaN \<notin> set (data t)"
      "\<And>d. torch_sub p t = Inr d \<Longrightarrow> data d \<noteq> []"
      by auto
    then have "MAE_contribution p t \<noteq> Inr (NaN, n)"
      by (rule MAE_contribution_number)
    then show "(case b of (p, t) \<Rightarrow> MAE_contribution p t) \<noteq> Inr (NaN, n)"
      using pt by simp
  qed
  ultimately show ?thesis by blast
qed

lemma MSE_nonneg:
  assumes run: "run_updates (\<lambda>(p, t). MSE_update p t) bs (reset m) = (Inr (), m')"
    and v: "fst (compute save m') = Inr v"
  shows "nonneg_or_nan v \<and>
    ((\<forall>(p, t)\<in>set bs. NaN \<notin> set (data p) \<and> NaN \<notin> set (data t) \<and>
        (\<forall>d. torch_sub p t = Inr d \<longrightarrow> data d \<noteq> [])) \<longrightarrow> nonneg v)"
proof -
  have "nonneg_or_nan v \<and>
      ((\<forall>b\<in>set bs. \<forall>n. (case b of (p, t) \<Rightarrow> MSE_contribution p t) \<noteq> Inr (NaN, n)) \<longrightarrow>
        nonneg v)"
  proof (rule nonneg_mean [OF _ _ run v])
    show "\<And>b m. (case b of (p, t) \<Rightarrow> MSE_update p t) m =
        outcome (case b of (p, t) \<Rightarrow> MSE_contribution p t) m"
      by (simp add: MSE_update_outcome split: prod.splits)
    show "\<And>b r n. (case b of (p, t) \<Rightarrow> MSE_contribution p t) = Inr (r, n) \<Longrightarrow>
        nonneg_or_nan r \<and> 0 \<le> n"
      by (auto dest: MSE_contribution_nn split: prod.splits)
  qed
  moreover have "\<forall>b\<in>set bs. \<forall>n. (case b of (p, t) \<Rightarrow> MSE_contribution p t) \<noteq> Inr (NaN, n)"
    if "\<forall>(p, t)\<in>set bs. NaN \<notin> set (data p) \<and> NaN \<notin> set (data t) \<and>
        (\<forall>d. torch_sub p t = Inr d \<longrightarrow> data d \<noteq> [])"
  proof (intro ballI allI)
    fix b n
    assume b: "b \<in> set bs"
    obtain p t where pt: "b = (p, t)"
      by (cases b)
    from that b pt have "NaN \<notin> set (data p)" "NaN \<notin> set (data t)"
      "\<And>d. torch_sub p t = Inr d \<Longrightarrow> data d \<noteq> []"
      by auto
    then have "MSE_contribution p t \<noteq> Inr (NaN, n)"
      by (rule MSE_contribution_number)
    then show "(case b of (p, t) \<Rightarrow> MSE_contribution p t) \<noteq> Inr (NaN, n)"
      using pt by simp
  qed
  ultimately show ?thesis by blast
qed

text \<open>
  Claim C8, as the code has it. For MAE and for MSE, after a run of updates since
  \<^verbatim>\<open>reset\<close> that all return, a value that \<^verbatim>\<open>compute\<close> returns is never a negative
  number: it is a number that is not negative, or not-a-number. It is a number that is
  not negative when the inputs are real-valued (no element of \<open>predicted\<close> or \<open>target\<close>
  is not-a-number) and the difference \<open>predicted - target\<close> of every batch has at least
  one element.
\<close>

theorem MAE_MSE_nonneg:
  "(run_updates (\<lambda>(p, t). MAE_update p t) bs1 (reset m1) = (Inr (), m1') \<longrightarrow>
      fst (compute save m1') = Inr v1 \<longrightarrow>
      nonneg_or_nan v1 \<and>
      ((\<forall>(p, t)\<in>set bs1. NaN \<notin> set (data p) \<and> NaN \<notin> set (data t) \<and>
          (\<forall>d. torch_sub p t = Inr d \<longrightarrow> data d \<noteq> [])) \<longrightarrow> nonneg v1)) \<and>
   (run_updates (\<lambda>(p, t). MSE_update p t) bs2 (reset m2) = (Inr (), m2') \<longrightarrow>
      fst (compute save m2') = Inr v2 \<longrightarrow>
      nonneg_or_nan v2 \<and>
      ((\<forall>(p, t)\<in>set bs2. NaN \<notin> set (data p) \<and> NaN \<notin> set (data t) \<and>
          (\<forall>d. torch_sub p t = Inr d \<longrightarrow> data d \<noteq> [])) \<longrightarrow> nonneg v2))"
  using MAE_nonneg [of bs1 m1 m1' save v1] MSE_nonneg [of bs2 m2 m2' save v2]
  by blast

theorem MAE_MSE_nonneg_witness:
  "torch_sub (vector [1, 2, 3]) (vector [1, 1, 1]) =
     Inr \<lparr>shape = [3], data = [Fin 0, Fin 1, Fin 2]\<rparr> \<and>
   torch_sub (vector [5]) (vector [0]) = Inr \<lparr>shape = [1], data = [Fin 5]\<rparr> \<and>
   fst (run_updates (\<lambda>(p, t). MAE_update p t)
     [(vector [1, 2, 3], vector [1, 1, 1]), (vector [5], vector [0])] (reset MAE_init))
     = Inr () \<and>
   fst (compute False (snd (run_updates (\<lambda>(p, t). MAE_update p t)
     [(vector [1, 2, 3], vector [1, 1, 1]), (vector [5], vector [0])] (reset MAE_init))))
     = Inr (Fin 2) \<and>
   fst (run_updates (\<lambda>(p, t). MSE_update p t)
     [(vector [1, 2, 3], vector [1, 1, 1]), (vector [5], vector [0])] (reset MSE_init))
     = Inr () \<and>
   fst (compute False (snd (run_updates (\<lambda>(p, t). MSE_update p t)
     [(vector [1, 2, 3], vector [1, 1, 1]), (vector [5], vector [0])] (reset MSE_init))))
     = Inr (Fin (15 / 2)) \<and>
   nonneg (Fin 2) \<and> nonneg (Fin (15 / 2))"
  using MAE_MSE_nonneg
    [where ?bs1.0 = "[(vector [1, 2, 3], vector [1, 1, 1]), (vector [5], vector [0])]"
       and ?m1.0 = MAE_init
       and ?m1' = "snd (run_updates (\<lambda>(p, t). MAE_update p t)
             [(vector [1, 2, 3], vector [1, 1, 1]), (vector [5], vector [0])] (reset MAE_init))"
       and ?v1.0 = "Fin 2"
       and ?bs2.0 = "[(vector [1, 2, 3], vector [1, 1, 1]), (vector [5], vector [0])]"
       and ?m2.0 = MSE_init
       and ?m2' = "snd (run_updates (\<lambda>(p, t). MSE_update p t)
             [(vector [1, 2, 3], vector [1, 1, 1]), (vector [5], vector [0])] (reset MSE_init))"
       and ?v2.0 = "Fin (15 / 2)"
       and save = False]
  by (simp add: MAE_update_def MSE_update_def MAE_init_def MSE_init_def Metric_init_def
      vector_def shape0_def torch_sub_def broadcast_to_def torch_abs_def torch_pow_def
      torch_mean_def mean_of_def item_def reset_def compute_def truediv_def Let_def)

text \<open>
  The claim as the specification words it, for any real-valued inputs, fails on a batch
  without elements: \<^verbatim>\<open>torch.mean\<close> of an empty tensor is not-a-number, which the sum
  keeps, so after an empty batch and a batch of one example \<^verbatim>\<open>compute()\<close> returns
  not-a-number, and \<^verbatim>\<open>nan >= 0\<close> is false.
\<close>

theorem empty_batch_counterexample:
  "fst (run_updates (\<lambda>(p, t). MAE_update p t)
     [(vector [], vector []), (vector [5], vector [0])] MAE_init) = Inr () \<and>
   fst (compute False (snd (run_updates (\<lambda>(p, t). MAE_update p t)
     [(vector [], vector []), (vector [5], vector [0])] MAE_init))) = Inr NaN \<and>
   \<not> nonneg NaN"
  by (simp add: MAE_update_def MAE_init_def Metric_init_def vector_def shape0_def torch_sub_def
      broadcast_to_def torch_abs_def torch_mean_def mean_of_def item_def compute_def
      truediv_def Let_def)

end
